theory Spec2Isabelle
  imports Main
begin

section \<open>Types (types.ts)\<close>

text \<open>
  \<^verbatim>\<open>Hex\<close> is a template-literal string type; at run time it is a plain string.
  \<^verbatim>\<open>ChainConfig.id\<close> is a JavaScript number holding an EIP-155 chain id; it is modelled
  as an integer. Optional fields are options.
\<close>

type_synonym Hex = string

datatype Status = Disconnected | Connecting | Connected | Locked

record NativeCurrency =
  nc_name :: string
  nc_symbol :: string
  nc_decimals :: int

record BlockExplorer =
  be_name :: string
  be_url :: string

record ChainConfig =
  id_cfg :: int
  name_cfg :: string
  rpcUrls :: "string list"
  icon :: "string option"
  nativeCurrency :: "NativeCurrency option"
  blockExplorers :: "BlockExplorer list option"

section \<open>The session record (WalletContext.tsx)\<close>

datatype Connector = Metamask | Guest

text \<open>
  The two ethers provider classes the code instantiates: \<^verbatim>\<open>new ethers.BrowserProvider(eth, "any")\<close>
  around the injected object and \<^verbatim>\<open>new JsonRpcProvider(rpcUrl)\<close>. The two signer classes:
  the \<^verbatim>\<open>JsonRpcSigner\<close> that \<^verbatim>\<open>provider.getSigner()\<close> yields (a provider and an address) and
  the \<^verbatim>\<open>Wallet\<close> built from a private key and a provider.
\<close>

datatype Provider = BrowserProvider | JsonRpcProvider string

datatype Signer = JsonRpcSigner Provider Hex | Wallet Hex Provider

record WalletState =
  status :: Status
  connector :: "Connector option"
  provider :: "Provider option"
  signer :: "Signer option"
  account :: "Hex option"
  chainId :: "int option"
  chain_cfg :: "ChainConfig option"

text \<open>The argument of \<^verbatim>\<open>useState\<close>: the session at manager initialisation.\<close>

definition initialState :: WalletState where
  "initialState =
     \<lparr> status = Disconnected, connector = None, provider = None, signer = None,
       account = None, chainId = None, chain_cfg = None \<rparr>"

section \<open>Errors and the outside world\<close>

text \<open>
  A thrown JavaScript value: its \<^verbatim>\<open>code\<close> property when that is a number (the only test
  the code makes is \<^verbatim>\<open>err?.code === 4902\<close>) and its message.
\<close>

datatype JsError = JsError (code: "int option") (message: string)

record AddChainParams =
  p_chainId :: string
  p_chainName :: string
  p_rpcUrls :: "string list"
  p_nativeCurrency :: NativeCurrency
  p_blockExplorerUrls :: "string list"

text \<open>The three requests the code sends to the injected wallet.\<close>

datatype RpcRequest =
    EthRequestAccounts
  | WalletSwitchEthereumChain string
  | WalletAddEthereumChain AddChainParams

text \<open>
  What the collaborators answer while one operation runs. They are not code of this
  repository, so every answer is a parameter: whether \<^verbatim>\<open>globalThis.ethereum?.request\<close>
  and \<^verbatim>\<open>eth?.on\<close> exist, whether a request to the wallet resolves or rejects, what
  \<^verbatim>\<open>provider.getSigner()\<close>, \<^verbatim>\<open>signer.getAddress()\<close> and
  \<^verbatim>\<open>Number((await provider.getNetwork()).chainId)\<close> give, and whether the \<^verbatim>\<open>Wallet\<close>
  constructor accepts a key string.
\<close>

record Ext =
  eth_request_present :: bool
  eth_on_present :: bool
  eth_request :: "RpcRequest \<Rightarrow> JsError + unit"
  getSigner :: "Provider \<Rightarrow> JsError + Hex"
  getAddress :: "Signer \<Rightarrow> JsError + Hex"
  getNetwork :: "Provider \<Rightarrow> JsError + int"
  newWallet :: "Hex \<Rightarrow> JsError + unit"

text \<open>The two closures \<^verbatim>\<open>bindInjectedEvents\<close> creates; \<^verbatim>\<open>onChain\<close> captures the provider.\<close>

datatype Handler = OnAccounts | OnChain Provider

text \<open>
  Everything the operations read or write: the React state, the browser's
  \<^verbatim>\<open>localStorage\<close>, the handlers registered on the injected object with \<^verbatim>\<open>eth.on\<close>
  (event name and handler, in registration order), and the requests sent to the wallet so far.
\<close>

record World =
  state :: WalletState
  localStorage :: "string \<rightharpoonup> string"
  listeners :: "(string \<times> Handler) list"
  sent :: "RpcRequest list"

definition lastConnectorKey :: string where
  "lastConnectorKey = ''@hazbase/react:last-connector''"

definition setState :: "(WalletState \<Rightarrow> WalletState) \<Rightarrow> World \<Rightarrow> World" where
  "setState f w = w\<lparr>state := f (state w)\<rparr>"

definition send_request :: "RpcRequest \<Rightarrow> World \<Rightarrow> World" where
  "send_request r w = w\<lparr>sent := sent w @ [r]\<rparr>"

section \<open>Chain Directory\<close>

definition resolveChain :: "ChainConfig list \<Rightarrow> int option \<Rightarrow> ChainConfig option" where
  "resolveChain knownChains i =
     (case i of None \<Rightarrow> None | Some n \<Rightarrow> find (\<lambda>c. id_cfg c = n) knownChains)"

section \<open>Event Bridge\<close>

text \<open>
  \<^verbatim>\<open>eth?.on?.(...)\<close>: the handlers are registered only when the injected object has
  \<^verbatim>\<open>on\<close>. Nothing in the file ever removes a handler.
\<close>

definition bindInjectedEvents :: "Ext \<Rightarrow> Provider \<Rightarrow> World \<Rightarrow> World" where
  "bindInjectedEvents ext prov w =
     (if eth_on_present ext
      then w\<lparr>listeners := listeners w @
                [(''accountsChanged'', OnAccounts), (''chainChanged'', OnChain prov)]\<rparr>
      else w)"

definition onAccounts :: "string list \<Rightarrow> World \<Rightarrow> World" where
  "onAccounts accounts w =
     (let acc = (case accounts of [] \<Rightarrow> None | a # _ \<Rightarrow> Some a)
      in setState (\<lambda>s. s\<lparr>account := acc\<rparr>) w)"

definition onChain :: "ChainConfig list \<Rightarrow> Ext \<Rightarrow> Provider \<Rightarrow> string \<Rightarrow> World \<Rightarrow> (JsError + unit) \<times> World" where
  "onChain knownChains ext prov chainIdHex w =
     (case getNetwork ext prov of
        Inl e \<Rightarrow> (Inl e, w)
      | Inr cid \<Rightarrow>
          (Inr (), setState (\<lambda>s. s\<lparr>chainId := Some cid,
                                   chain_cfg := resolveChain knownChains (Some cid)\<rparr>) w))"

section \<open>Session Manager\<close>

text \<open>
  Every operation takes the collaborators' answers and the world, and returns what the
  caller sees (\<open>Inl\<close> the thrown value, \<open>Inr ()\<close> a normal return) with the world it
  leaves. The \<^verbatim>\<open>setState\<close> calls of one operation are applied in program order; an
  operation runs to its end before the next one starts.
\<close>

type_synonym result = "(JsError + unit) \<times> World"

definition connectMetaMask :: "ChainConfig list \<Rightarrow> Ext \<Rightarrow> World \<Rightarrow> result" where
  "connectMetaMask knownChains ext w =
     (let w1 = setState (\<lambda>s. s\<lparr>status := Connecting\<rparr>) w in
      if \<not> eth_request_present ext
      then (Inl (JsError None ''METAMASK_NOT_FOUND''),
            setState (\<lambda>s. s\<lparr>status := Disconnected\<rparr>) w1)
      else
        let prov = BrowserProvider;
            w2 = send_request EthRequestAccounts w1 in
        case eth_request ext EthRequestAccounts of
          Inl e \<Rightarrow> (Inl e, w2)
        | Inr _ \<Rightarrow>
        (case getSigner ext prov of
          Inl e \<Rightarrow> (Inl e, w2)
        | Inr addr \<Rightarrow>
        (let sgn = JsonRpcSigner prov addr in
         case getAddress ext sgn of
          Inl e \<Rightarrow> (Inl e, w2)
        | Inr acc \<Rightarrow>
        (case getNetwork ext prov of
          Inl e \<Rightarrow> (Inl e, w2)
        | Inr cid \<Rightarrow>
            (let w3 = bindInjectedEvents ext prov w2;
                 w4 = w3\<lparr>localStorage := (localStorage w3)(lastConnectorKey \<mapsto> ''metamask'')\<rparr>
             in (Inr (),
                 setState (\<lambda>_. \<lparr> status = Connected, connector = Some Metamask,
                                  provider = Some prov, signer = Some sgn,
                                  account = Some acc, chainId = Some cid,
                                  chain_cfg = resolveChain knownChains (Some cid) \<rparr>) w4))))))"

definition connectGuest :: "ChainConfig list \<Rightarrow> Ext \<Rightarrow> Hex \<Rightarrow> string \<Rightarrow> World \<Rightarrow> result" where
  "connectGuest knownChains ext privKey rpcUrl w =
     (let w1 = setState (\<lambda>s. s\<lparr>status := Connecting\<rparr>) w;
          prov = JsonRpcProvider rpcUrl in
      case newWallet ext privKey of
        Inl e \<Rightarrow> (Inl e, w1)
      | Inr _ \<Rightarrow>
      (let wallet = Wallet privKey prov in
       case getAddress ext wallet of
        Inl e \<Rightarrow> (Inl e, w1)
      | Inr acc \<Rightarrow>
      (case getNetwork ext prov of
        Inl e \<Rightarrow> (Inl e, w1)
      | Inr cid \<Rightarrow>
          (let w2 = w1\<lparr>localStorage := (localStorage w1)(lastConnectorKey \<mapsto> ''guest'')\<rparr>
           in (Inr (),
               setState (\<lambda>_. \<lparr> status = Connected, connector = Some Guest,
                                provider = Some prov, signer = Some wallet,
                                account = Some acc, chainId = Some cid,
                                chain_cfg = resolveChain knownChains (Some cid) \<rparr>) w2)))))"

text \<open>\<^verbatim>\<open>disconnect\<close> is synchronous and has no throwing statement: it returns the world.\<close>

definition disconnect :: "World \<Rightarrow> World" where
  "disconnect w =
     (let w1 = w\<lparr>localStorage := (localStorage w)(lastConnectorKey := None)\<rparr>
      in setState (\<lambda>_. \<lparr> status = Disconnected, connector = None, provider = None,
                          signer = None, account = None, chainId = None,
                          chain_cfg = None \<rparr>) w1)"

definition refreshNetwork :: "ChainConfig list \<Rightarrow> Ext \<Rightarrow> World \<Rightarrow> result" where
  "refreshNetwork knownChains ext w =
     (case provider (state w) of
        None \<Rightarrow> (Inr (), w)
      | Some prov \<Rightarrow>
          (case getNetwork ext prov of
             Inl e \<Rightarrow> (Inl e, w)
           | Inr cid \<Rightarrow>
               (Inr (), setState (\<lambda>s. s\<lparr>chainId := Some cid,
                                        chain_cfg := resolveChain knownChains (Some cid)\<rparr>) w)))"

subsection \<open>Building the wallet requests\<close>

text \<open>\<^verbatim>\<open>Number.prototype.toString(16)\<close> on an integer: lower-case digits, a minus sign first.\<close>

definition hexDigit :: "nat \<Rightarrow> char" where
  "hexDigit d = ''0123456789abcdef'' ! d"

function toHex :: "nat \<Rightarrow> string" where
  "toHex n = (if n < 16 then [hexDigit n] else toHex (n div 16) @ [hexDigit (n mod 16)])"
  by pat_completeness auto
termination
  by (relation "measure (\<lambda>n. n)") auto

declare toHex.simps [simp del]

definition toString16 :: "int \<Rightarrow> string" where
  "toString16 i = (if i < 0 then CHR ''-'' # toHex (nat (- i)) else toHex (nat i))"

definition switchRequest :: "ChainConfig \<Rightarrow> RpcRequest" where
  "switchRequest target = WalletSwitchEthereumChain (''0x'' @ toString16 (id_cfg target))"

definition addRequest :: "ChainConfig \<Rightarrow> RpcRequest" where
  "addRequest target =
     WalletAddEthereumChain
       \<lparr> p_chainId = ''0x'' @ toString16 (id_cfg target),
         p_chainName = name_cfg target,
         p_rpcUrls = rpcUrls target,
         p_nativeCurrency =
           (case nativeCurrency target of
              None \<Rightarrow> \<lparr> nc_name = ''ETH'', nc_symbol = ''ETH'', nc_decimals = 18 \<rparr>
            | Some c \<Rightarrow> c),
         p_blockExplorerUrls =
           (case blockExplorers target of None \<Rightarrow> [] | Some bs \<Rightarrow> map be_url bs) \<rparr>"

subsection \<open>Switching and adding a network\<close>

definition ensureOnInjected :: "Ext \<Rightarrow> ChainConfig \<Rightarrow> World \<Rightarrow> result" where
  "ensureOnInjected ext target w =
     (if \<not> eth_request_present ext
      then (Inl (JsError None ''NO_INJECTED_PROVIDER''), w)
      else
        let w1 = send_request (switchRequest target) w in
        case eth_request ext (switchRequest target) of
          Inr _ \<Rightarrow> (Inr (), w1)
        | Inl err \<Rightarrow>
            if code err = Some 4902 \<and> rpcUrls target \<noteq> []
            then
              (let w2 = send_request (addRequest target) w1 in
               case eth_request ext (addRequest target) of
                 Inl e \<Rightarrow> (Inl e, w2)
               | Inr _ \<Rightarrow> (Inr (), w2))
            else (Inl err, w1))"

text \<open>
  In the guest branch \<^verbatim>\<open>prevWallet.privateKey\<close> throws a TypeError when the signer is
  null, and is undefined on a signer that is not a \<^verbatim>\<open>Wallet\<close>, which the \<^verbatim>\<open>Wallet\<close>
  constructor rejects. A key read from an existing \<^verbatim>\<open>Wallet\<close> is accepted again.
  \<^verbatim>\<open>!rpcUrl\<close> is true for a missing first entry and for the empty string.
\<close>

definition switchChain :: "ChainConfig list \<Rightarrow> Ext \<Rightarrow> ChainConfig \<Rightarrow> World \<Rightarrow> result" where
  "switchChain knownChains ext target w =
     (if connector (state w) = Some Metamask then
        (case ensureOnInjected ext target w of
           (Inl e, w1) \<Rightarrow> (Inl e, w1)
         | (Inr _, w1) \<Rightarrow> refreshNetwork knownChains ext w1)
      else if connector (state w) = Some Guest then
        (case rpcUrls target of
           [] \<Rightarrow> (Inl (JsError None ''RPC_URL_REQUIRED''), w)
         | rpcUrl # _ \<Rightarrow>
             if rpcUrl = [] then (Inl (JsError None ''RPC_URL_REQUIRED''), w)
             else
               let prov = JsonRpcProvider rpcUrl in
               (case signer (state w) of
                  None \<Rightarrow> (Inl (JsError None ''TypeError''), w)
                | Some (JsonRpcSigner _ _) \<Rightarrow> (Inl (JsError None ''invalid private key''), w)
                | Some (Wallet privateKey _) \<Rightarrow>
                    (let wallet = Wallet privateKey prov in
                     case getNetwork ext prov of
                       Inl e \<Rightarrow> (Inl e, w)
                     | Inr cid \<Rightarrow>
                         (Inr (),
                          setState (\<lambda>s. s\<lparr>provider := Some prov, signer := Some wallet,
                                          chainId := Some cid,
                                          chain_cfg := resolveChain knownChains (Some cid)\<rparr>) w))))
      else (Inl (JsError None ''UNSUPPORTED_CONNECTOR''), w))"

definition addChain :: "Ext \<Rightarrow> ChainConfig \<Rightarrow> World \<Rightarrow> result" where
  "addChain ext params w =
     (if \<not> eth_request_present ext
      then (Inl (JsError None ''NO_INJECTED_PROVIDER''), w)
      else
        let w1 = send_request (addRequest params) w in
        case eth_request ext (addRequest params) of
          Inl e \<Rightarrow> (Inl e, w1)
        | Inr _ \<Rightarrow> (Inr (), w1))"

text \<open>
  The mount effect: with \<^verbatim>\<open>autoConnect\<close> and a stored \<^verbatim>\<open>"metamask"\<close> it runs
  \<^verbatim>\<open>connectMetaMask\<close> and swallows a failure; a stored \<^verbatim>\<open>"guest"\<close> does nothing.
\<close>

definition autoConnectEffect :: "ChainConfig list \<Rightarrow> Ext \<Rightarrow> bool \<Rightarrow> World \<Rightarrow> World" where
  "autoConnectEffect knownChains ext autoConnect w =
     (if \<not> autoConnect then w
      else if localStorage w lastConnectorKey = Some ''metamask''
      then snd (connectMetaMask knownChains ext w)
      else w)"

subsection \<open>Notifications and runs\<close>

text \<open>
  The injected object calls every handler registered for the event, in registration
  order; a handler's rejected promise is dropped by the emitter.
\<close>

datatype Event = AccountsChanged "string list" | ChainChanged string

fun invoke :: "ChainConfig list \<Rightarrow> Ext \<Rightarrow> Event \<Rightarrow> string \<times> Handler \<Rightarrow> World \<Rightarrow> World" where
  "invoke knownChains ext (AccountsChanged accounts) (n, OnAccounts) w =
     (if n = ''accountsChanged'' then onAccounts accounts w else w)"
| "invoke knownChains ext (ChainChanged h) (n, OnChain prov) w =
     (if n = ''chainChanged'' then snd (onChain knownChains ext prov h w) else w)"
| "invoke knownChains ext _ _ w = w"

definition notify :: "ChainConfig list \<Rightarrow> Ext \<Rightarrow> Event \<Rightarrow> World \<Rightarrow> World" where
  "notify knownChains ext ev w = fold (invoke knownChains ext ev) (listeners w) w"

datatype Action =
    ConnectMetaMask
  | ConnectGuest Hex string
  | Disconnect
  | RefreshNetwork
  | SwitchChain ChainConfig
  | AddChain ChainConfig
  | Notify Event
  | Mount bool

fun step :: "ChainConfig list \<Rightarrow> Ext \<times> Action \<Rightarrow> World \<Rightarrow> World" where
  "step knownChains (ext, ConnectMetaMask) w = snd (connectMetaMask knownChains ext w)"
| "step knownChains (ext, ConnectGuest privKey rpcUrl) w =
     snd (connectGuest knownChains ext privKey rpcUrl w)"
| "step knownChains (ext, Disconnect) w = disconnect w"
| "step knownChains (ext, RefreshNetwork) w = snd (refreshNetwork knownChains ext w)"
| "step knownChains (ext, SwitchChain target) w = snd (switchChain knownChains ext target w)"
| "step knownChains (ext, AddChain params) w = snd (addChain ext params w)"
| "step knownChains (ext, Notify ev) w = notify knownChains ext ev w"
| "step knownChains (ext, Mount autoConnect) w = autoConnectEffect knownChains ext autoConnect w"

text \<open>
  A run: any sequence of operations and notifications, each with the answers the
  collaborators give at that time, from the world at manager initialisation (any
  stored key-value pairs, no handler registered, nothing sent).
\<close>

definition run :: "ChainConfig list \<Rightarrow> (Ext \<times> Action) list \<Rightarrow> World \<Rightarrow> World" where
  "run knownChains steps w = fold (step knownChains) steps w"

definition initialWorld :: "(string \<rightharpoonup> string) \<Rightarrow> World" where
  "initialWorld store = \<lparr> state = initialState, localStorage = store, listeners = [], sent = [] \<rparr>"

section \<open>Hooks\<close>

text \<open>
  The context value is the session extended with the six actions
  (\<^verbatim>\<open>WalletState & WalletActions\<close>), or null outside a \<^verbatim>\<open>WalletProvider\<close>. A hook reads
  it with \<^verbatim>\<open>useContext\<close>; here it is the hook's argument. The actions are closures of
  the provider component: \<open>'p\<close> is the promise an asynchronous action returns and
  \<open>'u\<close> what \<^verbatim>\<open>disconnect\<close> returns.
\<close>

record ('p, 'u) WalletContext = WalletState +
  ctx_connectMetaMask :: 'p
  ctx_connectGuest :: "Hex \<Rightarrow> string \<Rightarrow> 'p"
  ctx_disconnect :: 'u
  ctx_refreshNetwork :: 'p
  ctx_switchChain :: "ChainConfig \<Rightarrow> 'p"
  ctx_addChain :: "ChainConfig \<Rightarrow> 'p"

record ('p, 'u) SignerInfo =
  si_status :: Status
  si_signer :: "Signer option"
  si_connectMetaMask :: 'p
  si_connectGuest :: "Hex \<Rightarrow> string \<Rightarrow> 'p"
  si_disconnect :: 'u

record AddressInfo =
  address :: "Hex option"
  isConnected :: bool

record 'p NetworkInfo =
  ni_chainId :: "int option"
  ni_chain :: "ChainConfig option"
  ni_connector :: "Connector option"
  refresh :: 'p
  switchNetwork :: "ChainConfig \<Rightarrow> 'p"
  addNetwork :: "ChainConfig \<Rightarrow> 'p"

definition useSigner :: "('p, 'u) WalletContext option \<Rightarrow> JsError + ('p, 'u) SignerInfo" where
  "useSigner ctx =
     (case ctx of
        None \<Rightarrow> Inl (JsError None ''WalletProvider is missing'')
      | Some c \<Rightarrow>
          Inr \<lparr> si_status = status c, si_signer = signer c,
                si_connectMetaMask = ctx_connectMetaMask c,
                si_connectGuest = ctx_connectGuest c,
                si_disconnect = ctx_disconnect c \<rparr>)"

definition useAddress :: "('p, 'u) WalletContext option \<Rightarrow> JsError + AddressInfo" where
  "useAddress ctx =
     (case ctx of
        None \<Rightarrow> Inl (JsError None ''WalletProvider is missing'')
      | Some c \<Rightarrow> Inr \<lparr> address = account c, isConnected = (status c = Connected) \<rparr>)"

definition useNetwork :: "('p, 'u) WalletContext option \<Rightarrow> JsError + 'p NetworkInfo" where
  "useNetwork ctx =
     (case ctx of
        None \<Rightarrow> Inl (JsError None ''WalletProvider is missing'')
      | Some c \<Rightarrow>
          Inr \<lparr> ni_chainId = chainId c, ni_chain = chain_cfg c, ni_connector = connector c,
                refresh = ctx_refreshNetwork c,
                switchNetwork = (\<lambda>target. ctx_switchChain c target),
                addNetwork = (\<lambda>params. ctx_addChain c params) \<rparr>)"

section \<open>Concrete collaborators and inputs\<close>

text \<open>
  A wallet and two RPC endpoints that answer every call: the injected provider and
  \<^verbatim>\<open>https://rpc.a\<close> report chain 1, \<^verbatim>\<open>https://rpc.b\<close> reports chain 137.
\<close>

definition ext_ok :: Ext where
  "ext_ok =
     \<lparr> eth_request_present = True,
       eth_on_present = True,
       eth_request = (\<lambda>_. Inr ()),
       getSigner = (\<lambda>_. Inr ''0xA1''),
       getAddress = (\<lambda>s. case s of JsonRpcSigner _ a \<Rightarrow> Inr a | Wallet k _ \<Rightarrow> Inr (''0xaddr-of-'' @ k)),
       getNetwork = (\<lambda>p. if p = JsonRpcProvider ''https://rpc.b'' then Inr 137 else Inr 1),
       newWallet = (\<lambda>_. Inr ()) \<rparr>"

text \<open>The user rejects the account request (EIP-1193 code 4001).\<close>

definition ext_rejecting :: Ext where
  "ext_rejecting = ext_ok\<lparr>eth_request := (\<lambda>_. Inl (JsError (Some 4001) ''User rejected the request''))\<rparr>"

text \<open>The network read fails.\<close>

definition ext_offline :: Ext where
  "ext_offline = ext_ok\<lparr>getNetwork := (\<lambda>_. Inl (JsError None ''network unreachable''))\<rparr>"

text \<open>The wallet does not know the chain of a switch request (code 4902); it accepts the rest.\<close>

definition ext_unknown_chain :: Ext where
  "ext_unknown_chain =
     ext_ok\<lparr>eth_request :=
       (\<lambda>r. case r of
               WalletSwitchEthereumChain _ \<Rightarrow> Inl (JsError (Some 4902) ''Unrecognized chain ID'')
             | _ \<Rightarrow> Inr ())\<rparr>"

definition polygon :: ChainConfig where
  "polygon = \<lparr> id_cfg = 137, name_cfg = ''Polygon'', rpcUrls = [''https://rpc.b''], icon = None,
               nativeCurrency = None, blockExplorers = None \<rparr>"

definition polygon_no_rpc :: ChainConfig where
  "polygon_no_rpc = polygon\<lparr>rpcUrls := []\<rparr>"

definition polygon_blank_rpc :: ChainConfig where
  "polygon_blank_rpc = polygon\<lparr>rpcUrls := ['''']\<rparr>"

definition injected_session :: World where
  "injected_session = snd (connectMetaMask [polygon] ext_ok (initialWorld Map.empty))"

definition guest_session :: World where
  "guest_session = snd (connectGuest [polygon] ext_ok ''0xK'' ''https://rpc.a'' (initialWorld Map.empty))"

section \<open>Consistency of the session\<close>

text \<open>
  Three facts about the session that every operation and notification keeps: the resolved
  chain is the directory's entry for the chain id, a connected session has a signer, and
  a guest session's signer is a \<^verbatim>\<open>Wallet\<close>.
\<close>

fun isWallet :: "Signer option \<Rightarrow> bool" where
  "isWallet (Some (Wallet _ _)) = True"
| "isWallet _ = False"

definition session_inv :: "ChainConfig list \<Rightarrow> WalletState \<Rightarrow> bool" where
  "session_inv kc s =
     (chain_cfg s = resolveChain kc (chainId s)
      \<and> (status s = Connected \<longrightarrow> signer s \<noteq> None)
      \<and> (connector s = Some Guest \<longrightarrow> isWallet (signer s)))"

section \<open>Evaluating the concrete inputs\<close>

lemmas op_defs = connectMetaMask_def connectGuest_def disconnect_def refreshNetwork_def
  ensureOnInjected_def switchChain_def addChain_def autoConnectEffect_def onAccounts_def
  onChain_def setState_def send_request_def bindInjectedEvents_def Let_def

lemmas fixture_defs = ext_ok_def ext_rejecting_def ext_offline_def ext_unknown_chain_def
  polygon_def polygon_no_rpc_def polygon_blank_rpc_def initialWorld_def initialState_def

lemma injected_session_eval:
  "injected_session =
     \<lparr> state = \<lparr> status = Connected, connector = Some Metamask, provider = Some BrowserProvider,
                 signer = Some (JsonRpcSigner BrowserProvider ''0xA1''), account = Some ''0xA1'',
                 chainId = Some 1, chain_cfg = None \<rparr>,
       localStorage = [lastConnectorKey \<mapsto> ''metamask''],
       listeners = [(''accountsChanged'', OnAccounts), (''chainChanged'', OnChain BrowserProvider)],
       sent = [EthRequestAccounts] \<rparr>"
  by (simp add: injected_session_def op_defs fixture_defs resolveChain_def)

lemma guest_session_eval:
  "guest_session =
     \<lparr> state = \<lparr> status = Connected, connector = Some Guest,
                 provider = Some (JsonRpcProvider ''https://rpc.a''),
                 signer = Some (Wallet ''0xK'' (JsonRpcProvider ''https://rpc.a'')),
                 account = Some ''0xaddr-of-0xK'',
                 chainId = Some 1, chain_cfg = None \<rparr>,
       localStorage = [lastConnectorKey \<mapsto> ''guest''],
       listeners = [],
       sent = [] \<rparr>"
  by (simp add: guest_session_def op_defs fixture_defs resolveChain_def)

lemma guest_session_run:
  "guest_session =
     run [polygon] [(ext_ok, ConnectGuest ''0xK'' ''https://rpc.a'')] (initialWorld Map.empty)"
  by (simp add: run_def guest_session_def)

lemma polygon_requests:
  "switchRequest polygon = WalletSwitchEthereumChain ''0x89''"
  "addRequest polygon =
     WalletAddEthereumChain
       \<lparr> p_chainId = ''0x89'', p_chainName = ''Polygon'', p_rpcUrls = [''https://rpc.b''],
         p_nativeCurrency = \<lparr> nc_name = ''ETH'', nc_symbol = ''ETH'', nc_decimals = 18 \<rparr>,
         p_blockExplorerUrls = [] \<rparr>"
  by (simp_all add: switchRequest_def addRequest_def polygon_def toString16_def toHex.simps
        hexDigit_def)

section \<open>The invariant is kept by every step\<close>

lemma inv_initial: "session_inv kc (state (initialWorld store))"
  by (simp add: session_inv_def initialWorld_def initialState_def resolveChain_def)

lemma inv_connectMetaMask:
  "session_inv kc (state w) \<Longrightarrow> session_inv kc (state (snd (connectMetaMask kc ext w)))"
  by (auto simp: session_inv_def op_defs split: sum.splits)

lemma inv_connectGuest:
  "session_inv kc (state w) \<Longrightarrow> session_inv kc (state (snd (connectGuest kc ext k u w)))"
  by (auto simp: session_inv_def op_defs split: sum.splits)

lemma inv_disconnect: "session_inv kc (state (disconnect w))"
  by (simp add: session_inv_def op_defs resolveChain_def)

lemma inv_refreshNetwork:
  "session_inv kc (state w) \<Longrightarrow> session_inv kc (state (snd (refreshNetwork kc ext w)))"
  by (auto simp: session_inv_def op_defs split: sum.splits option.splits)

lemma state_ensureOnInjected: "state (snd (ensureOnInjected ext t w)) = state w"
  by (auto simp: op_defs split: sum.splits)

lemma inv_switchChain:
  "session_inv kc (state w) \<Longrightarrow> session_inv kc (state (snd (switchChain kc ext t w)))"
proof (cases "connector (state w) = Some Metamask")
  case True
  assume a: "session_inv kc (state w)"
  obtain r w1 where e: "ensureOnInjected ext t w = (r, w1)"
    by (cases "ensureOnInjected ext t w")
  have s1: "state w1 = state w"
    using state_ensureOnInjected[of ext t w] e by simp
  show ?thesis
  proof (cases r)
    case (Inl err)
    then show ?thesis using True e s1 a by (simp add: switchChain_def)
  next
    case (Inr u)
    then show ?thesis
      using True e s1 a inv_refreshNetwork[of kc w1 ext] by (simp add: switchChain_def)
  qed
next
  case False
  assume "session_inv kc (state w)"
  then show ?thesis using False
    by (auto simp: switchChain_def session_inv_def setState_def Let_def
             split: sum.splits option.splits list.splits Signer.splits)
qed

lemma inv_addChain:
  "session_inv kc (state w) \<Longrightarrow> session_inv kc (state (snd (addChain ext t w)))"
  by (auto simp: op_defs split: sum.splits)

lemma inv_autoConnectEffect:
  "session_inv kc (state w) \<Longrightarrow> session_inv kc (state (autoConnectEffect kc ext b w))"
  by (simp add: autoConnectEffect_def inv_connectMetaMask)

lemma inv_invoke:
  "session_inv kc (state w) \<Longrightarrow> session_inv kc (state (invoke kc ext ev h w))"
  by (induction kc ext ev h w rule: invoke.induct)
     (auto simp: session_inv_def onAccounts_def onChain_def setState_def split: sum.splits)

lemma inv_fold_invoke:
  "session_inv kc (state w) \<Longrightarrow> session_inv kc (state (fold (invoke kc ext ev) hs w))"
  by (induction hs arbitrary: w) (simp_all add: inv_invoke)

lemma inv_notify:
  "session_inv kc (state w) \<Longrightarrow> session_inv kc (state (notify kc ext ev w))"
  by (simp add: notify_def inv_fold_invoke)

lemma inv_step: "session_inv kc (state w) \<Longrightarrow> session_inv kc (state (step kc a w))"
proof (cases a)
  case (Pair ext act)
  assume "session_inv kc (state w)"
  then show ?thesis unfolding Pair
    by (cases act)
       (simp_all add: inv_connectMetaMask inv_connectGuest inv_disconnect inv_refreshNetwork
          inv_switchChain inv_addChain inv_notify inv_autoConnectEffect)
qed

lemma inv_fold_step:
  "session_inv kc (state w) \<Longrightarrow> session_inv kc (state (fold (step kc) steps w))"
  by (induction steps arbitrary: w) (simp_all add: inv_step)

lemma inv_run: "session_inv kc (state (run kc steps (initialWorld store)))"
  unfolding run_def by (rule inv_fold_step) (rule inv_initial)

section \<open>Failed connects\<close>

text \<open>
  C1. The claim: on any failure at any step, \<^verbatim>\<open>connectMetaMask\<close> and \<^verbatim>\<open>connectGuest\<close>
  re-raise the error and first commit the status back to disconnected. The code does
  so only when the injected object is missing (third conjunct). When the user rejects
  the account request, or when the network read of a guest connect fails, the error
  reaches the caller and the session is left with status connecting.
\<close>

theorem connect_failure_leaves_connecting:
  "connectMetaMask [polygon] ext_rejecting (initialWorld Map.empty) =
     (Inl (JsError (Some 4001) ''User rejected the request''),
      \<lparr> state = initialState\<lparr>status := Connecting\<rparr>, localStorage = Map.empty, listeners = [],
        sent = [EthRequestAccounts] \<rparr>)
   \<and> connectGuest [polygon] ext_offline ''0xK'' ''https://rpc.a'' (initialWorld Map.empty) =
     (Inl (JsError None ''network unreachable''),
      \<lparr> state = initialState\<lparr>status := Connecting\<rparr>, localStorage = Map.empty, listeners = [],
        sent = [] \<rparr>)
   \<and> connectMetaMask [polygon] (ext_ok\<lparr>eth_request_present := False\<rparr>) (initialWorld Map.empty) =
     (Inl (JsError None ''METAMASK_NOT_FOUND''), initialWorld Map.empty)"
  by (simp add: op_defs fixture_defs)

section \<open>Status, signer and account\<close>

lemma connectMetaMask_success:
  "connectMetaMask kc ext w = (Inr (), w') \<Longrightarrow>
     status (state w') = Connected \<and> signer (state w') \<noteq> None \<and> account (state w') \<noteq> None"
  by (auto simp: op_defs split: sum.splits if_splits)

lemma connectGuest_success:
  "connectGuest kc ext k u w = (Inr (), w') \<Longrightarrow>
     status (state w') = Connected \<and> signer (state w') \<noteq> None \<and> account (state w') \<noteq> None"
  by (auto simp: op_defs split: sum.splits if_splits)

text \<open>
  C2, as stated: in every reachable session, status is connected if and only if signer
  and account are both present, also after an accounts-changed notification with an
  empty list. It fails: after a successful \<^verbatim>\<open>connectMetaMask\<close>, the notification with
  no address clears the account and leaves status connected and the signer in place.
\<close>

theorem connected_without_account_counterexample:
  "\<not> (status (state (run [polygon] [(ext_ok, ConnectMetaMask), (ext_ok, Notify (AccountsChanged []))]
                      (initialWorld Map.empty))) = Connected
      \<longleftrightarrow> signer (state (run [polygon] [(ext_ok, ConnectMetaMask), (ext_ok, Notify (AccountsChanged []))]
                      (initialWorld Map.empty))) \<noteq> None
        \<and> account (state (run [polygon] [(ext_ok, ConnectMetaMask), (ext_ok, Notify (AccountsChanged []))]
                      (initialWorld Map.empty))) \<noteq> None)"
  by (simp add: run_def notify_def op_defs fixture_defs)

text \<open>
  C2, amended: in every session reachable by a sequence of operations and notifications,
  status connected implies that the signer is present; and a connect that returns
  normally leaves status connected with both signer and account present.
\<close>

theorem connected_has_signer:
  "(status (state (run kc steps (initialWorld store))) = Connected \<longrightarrow>
      signer (state (run kc steps (initialWorld store))) \<noteq> None)
   \<and> (connectMetaMask kc ext w = (Inr (), w') \<longrightarrow>
        status (state w') = Connected \<and> signer (state w') \<noteq> None \<and> account (state w') \<noteq> None)
   \<and> (connectGuest kc ext k u w = (Inr (), w') \<longrightarrow>
        status (state w') = Connected \<and> signer (state w') \<noteq> None \<and> account (state w') \<noteq> None)"
  using inv_run[of kc steps store] connectMetaMask_success[of kc ext w w']
    connectGuest_success[of kc ext k u w w']
  by (simp add: session_inv_def)

theorem connected_has_signer_witness:
  "status (state (run [polygon] [(ext_ok, ConnectGuest ''0xK'' ''https://rpc.a'')]
                   (initialWorld Map.empty))) = Connected
   \<and> signer (state (run [polygon] [(ext_ok, ConnectGuest ''0xK'' ''https://rpc.a'')]
                   (initialWorld Map.empty))) \<noteq> None
   \<and> connectMetaMask [polygon] ext_ok (initialWorld Map.empty) = (Inr (), injected_session)
   \<and> status (state injected_session) = Connected
   \<and> signer (state injected_session) \<noteq> None \<and> account (state injected_session) \<noteq> None
   \<and> connectGuest [polygon] ext_ok ''0xK'' ''https://rpc.a'' (initialWorld Map.empty)
        = (Inr (), guest_session)
   \<and> status (state guest_session) = Connected
   \<and> signer (state guest_session) \<noteq> None \<and> account (state guest_session) \<noteq> None"
proof -
  have r: "status (state (run [polygon] [(ext_ok, ConnectGuest ''0xK'' ''https://rpc.a'')]
                   (initialWorld Map.empty))) = Connected"
    by (simp add: run_def op_defs fixture_defs)
  have m: "connectMetaMask [polygon] ext_ok (initialWorld Map.empty) = (Inr (), injected_session)"
    unfolding injected_session_eval by (simp add: op_defs fixture_defs resolveChain_def)
  have g: "connectGuest [polygon] ext_ok ''0xK'' ''https://rpc.a'' (initialWorld Map.empty)
        = (Inr (), guest_session)"
    unfolding guest_session_eval by (simp add: op_defs fixture_defs resolveChain_def)
  show ?thesis
    using r m g
      connected_has_signer[of "[polygon]" "[(ext_ok, ConnectGuest ''0xK'' ''https://rpc.a'')]"
         "Map.empty" ext_ok "initialWorld Map.empty" injected_session]
      connected_has_signer[of "[polygon]" "[]" "Map.empty" ext_ok "initialWorld Map.empty"
         guest_session "''0xK''" "''https://rpc.a''"]
    by simp
qed

section \<open>The resolved chain\<close>

lemma find_in_directory:
  "find (\<lambda>c. id_cfg c = n) kc = Some c \<Longrightarrow> c \<in> set kc \<and> id_cfg c = n"
  by (induction kc) (auto split: if_splits)

lemma find_not_in_directory:
  "n \<notin> id_cfg ` set kc \<Longrightarrow> find (\<lambda>c. id_cfg c = n) kc = None"
  by (induction kc) auto

text \<open>
  C3. After any sequence of operations and notifications, for a directory \<open>kc\<close> fixed
  over the run, the session's chain is the first entry of the directory whose id is the
  session's chain id (\<^verbatim>\<open>knownChains.find(c => c.id === id)\<close>). So the chain is absent
  when the chain id is absent, and absent when no entry of the directory has that id;
  a chain that is present is an entry of the directory and carries the session's chain id.
\<close>

theorem chain_is_lookup_of_chainId:
  assumes "w = run kc steps (initialWorld store)"
  shows "chain_cfg (state w) =
           (case chainId (state w) of
              None \<Rightarrow> None
            | Some n \<Rightarrow> find (\<lambda>c. id_cfg c = n) kc)
       \<and> (chainId (state w) = None \<longrightarrow> chain_cfg (state w) = None)
       \<and> (\<forall>n. chainId (state w) = Some n \<and> n \<notin> id_cfg ` set kc \<longrightarrow> chain_cfg (state w) = None)
       \<and> (\<forall>c. chain_cfg (state w) = Some c \<longrightarrow>
             c \<in> set kc \<and> chainId (state w) = Some (id_cfg c))"
proof -
  have e: "chain_cfg (state w) =
           (case chainId (state w) of
              None \<Rightarrow> None
            | Some n \<Rightarrow> find (\<lambda>c. id_cfg c = n) kc)"
    using inv_run[of kc steps store] assms by (simp add: session_inv_def resolveChain_def)
  have a: "chainId (state w) = None \<longrightarrow> chain_cfg (state w) = None"
    by (simp add: e)
  have b: "\<forall>n. chainId (state w) = Some n \<and> n \<notin> id_cfg ` set kc \<longrightarrow> chain_cfg (state w) = None"
    by (simp add: e find_not_in_directory)
  have c: "\<forall>c. chain_cfg (state w) = Some c \<longrightarrow>
             c \<in> set kc \<and> chainId (state w) = Some (id_cfg c)"
  proof (intro allI impI)
    fix c
    assume s: "chain_cfg (state w) = Some c"
    show "c \<in> set kc \<and> chainId (state w) = Some (id_cfg c)"
    proof (cases "chainId (state w)")
      case None
      then show ?thesis using s e by simp
    next
      case (Some n)
      then have "find (\<lambda>c. id_cfg c = n) kc = Some c"
        using s e by simp
      then show ?thesis
        using Some find_in_directory by blast
    qed
  qed
  show ?thesis
    using e a b c by blast
qed

text \<open>
  At concrete runs with the directory \<open>[polygon]\<close>: a guest session on chain 1, which
  the directory does not hold, has no chain; after a switch to the endpoint reporting 137
  the chain is the directory's entry; with no chain id there is no chain.
\<close>

theorem chain_is_lookup_of_chainId_witness:
  "chainId (state guest_session) = Some 1
   \<and> (1::int) \<notin> id_cfg ` set [polygon]
   \<and> chain_cfg (state guest_session) = None
   \<and> chainId (state (run [polygon]
        [(ext_ok, ConnectGuest ''0xK'' ''https://rpc.a''), (ext_ok, SwitchChain polygon)]
        (initialWorld Map.empty))) = Some 137
   \<and> chain_cfg (state (run [polygon]
        [(ext_ok, ConnectGuest ''0xK'' ''https://rpc.a''), (ext_ok, SwitchChain polygon)]
        (initialWorld Map.empty))) = Some polygon
   \<and> chainId (state (run [polygon] [] (initialWorld Map.empty))) = None
   \<and> chain_cfg (state (run [polygon] [] (initialWorld Map.empty))) = None"
proof -
  have c1: "chainId (state guest_session) = Some 1"
    by (simp add: guest_session_eval)
  have m1: "(1::int) \<notin> id_cfg ` set [polygon]"
    by (simp add: polygon_def)
  have miss: "chain_cfg (state guest_session) = None"
    using chain_is_lookup_of_chainId[OF guest_session_run, THEN conjunct2, THEN conjunct2,
        THEN conjunct1, THEN spec, of 1] c1 m1
    by simp
  have c2: "chainId (state (run [polygon]
        [(ext_ok, ConnectGuest ''0xK'' ''https://rpc.a''), (ext_ok, SwitchChain polygon)]
        (initialWorld Map.empty))) = Some 137"
    by (simp add: run_def op_defs fixture_defs)
  have f2: "find (\<lambda>c. id_cfg c = 137) [polygon] = Some polygon"
    by (simp add: polygon_def)
  have hit: "chain_cfg (state (run [polygon]
        [(ext_ok, ConnectGuest ''0xK'' ''https://rpc.a''), (ext_ok, SwitchChain polygon)]
        (initialWorld Map.empty))) = Some polygon"
    using chain_is_lookup_of_chainId[OF refl, of "[polygon]"
        "[(ext_ok, ConnectGuest ''0xK'' ''https://rpc.a''), (ext_ok, SwitchChain polygon)]"
        "Map.empty", THEN conjunct1] c2 f2
    by simp
  have c3: "chainId (state (run [polygon] [] (initialWorld Map.empty))) = None"
    by (simp add: run_def fixture_defs)
  have none: "chain_cfg (state (run [polygon] [] (initialWorld Map.empty))) = None"
    using chain_is_lookup_of_chainId[OF refl, of "[polygon]" "[]" "Map.empty",
        THEN conjunct2, THEN conjunct1] c3
    by simp
  show ?thesis
    by (intro conjI) (fact c1 m1 miss c2 hit c3 none)+
qed

section \<open>Switching on an injected connector\<close>

lemma ensureOnInjected_unknown_chain:
  assumes "eth_request_present ext"
      and "eth_request ext (switchRequest target) = Inl err"
      and "code err = Some 4902" and "rpcUrls target \<noteq> []"
  shows "ensureOnInjected ext target w =
           (eth_request ext (addRequest target),
            w\<lparr>sent := sent w @ [switchRequest target, addRequest target]\<rparr>)"
  using assms by (simp add: ensureOnInjected_def send_request_def Let_def split: sum.splits)

lemma ensureOnInjected_other_error:
  assumes "eth_request_present ext"
      and "eth_request ext (switchRequest target) = Inl err"
      and "code err \<noteq> Some 4902 \<or> rpcUrls target = []"
  shows "ensureOnInjected ext target w = (Inl err, w\<lparr>sent := sent w @ [switchRequest target]\<rparr>)"
  using assms by (auto simp: ensureOnInjected_def send_request_def Let_def)

text \<open>
  C4, as stated: for every target, a 4902 error from the switch request makes
  \<^verbatim>\<open>switchChain\<close> issue the add-chain request. It fails for a target with no RPC URL:
  the guard \<^verbatim>\<open>err?.code === 4902 && target.rpcUrls?.length\<close> is false, no add-chain
  request is sent and the 4902 error is thrown.
\<close>

theorem unknown_chain_without_rpc_counterexample:
  "switchChain [polygon] ext_unknown_chain polygon_no_rpc injected_session =
     (Inl (JsError (Some 4902) ''Unrecognized chain ID''),
      injected_session\<lparr>sent := [EthRequestAccounts, WalletSwitchEthereumChain ''0x89'']\<rparr>)"
  by (simp add: injected_session_eval op_defs fixture_defs switchRequest_def toString16_def
        toHex.simps hexDigit_def)

text \<open>
  C4, amended: on an injected connector whose switch request fails with error \<open>err\<close>:
  if the code is 4902 and the target has at least one RPC URL, the add-chain request built
  from the target (hex chain id, name, RPC URL list, native currency or \<open>{ETH, ETH, 18}\<close>,
  explorer URLs or the empty list) is sent next, and then \<^verbatim>\<open>refreshNetwork\<close> runs when
  that request resolves, while its error is thrown when it rejects; if the code is not
  4902, or the target has no RPC URL, \<open>err\<close> itself is thrown and nothing more is sent.
\<close>

theorem switchChain_injected_fallback:
  assumes "connector (state w) = Some Metamask"
      and "eth_request_present ext"
      and "eth_request ext (switchRequest target) = Inl err"
  shows "(code err = Some 4902 \<and> rpcUrls target \<noteq> [] \<longrightarrow>
            switchChain kc ext target w =
              (case eth_request ext (addRequest target) of
                 Inr _ \<Rightarrow> refreshNetwork kc ext
                            (w\<lparr>sent := sent w @ [switchRequest target, addRequest target]\<rparr>)
               | Inl e \<Rightarrow> (Inl e, w\<lparr>sent := sent w @ [switchRequest target, addRequest target]\<rparr>)))
       \<and> (code err \<noteq> Some 4902 \<or> rpcUrls target = [] \<longrightarrow>
            switchChain kc ext target w =
              (Inl err, w\<lparr>sent := sent w @ [switchRequest target]\<rparr>))
       \<and> addRequest target =
            WalletAddEthereumChain
              \<lparr> p_chainId = ''0x'' @ toString16 (id_cfg target),
                p_chainName = name_cfg target,
                p_rpcUrls = rpcUrls target,
                p_nativeCurrency =
                  (case nativeCurrency target of
                     None \<Rightarrow> \<lparr> nc_name = ''ETH'', nc_symbol = ''ETH'', nc_decimals = 18 \<rparr>
                   | Some c \<Rightarrow> c),
                p_blockExplorerUrls =
                  (case blockExplorers target of None \<Rightarrow> [] | Some bs \<Rightarrow> map be_url bs) \<rparr>"
proof (intro conjI impI)
  assume a: "code err = Some 4902 \<and> rpcUrls target \<noteq> []"
  show "switchChain kc ext target w =
              (case eth_request ext (addRequest target) of
                 Inr _ \<Rightarrow> refreshNetwork kc ext
                            (w\<lparr>sent := sent w @ [switchRequest target, addRequest target]\<rparr>)
               | Inl e \<Rightarrow> (Inl e, w\<lparr>sent := sent w @ [switchRequest target, addRequest target]\<rparr>))"
    using assms(1) a ensureOnInjected_unknown_chain[OF assms(2) assms(3), of w]
    by (simp add: switchChain_def split: sum.splits)
next
  assume b: "code err \<noteq> Some 4902 \<or> rpcUrls target = []"
  show "switchChain kc ext target w = (Inl err, w\<lparr>sent := sent w @ [switchRequest target]\<rparr>)"
    using assms(1) ensureOnInjected_other_error[OF assms(2) assms(3) b, of w]
    by (simp add: switchChain_def)
next
  show "addRequest target =
            WalletAddEthereumChain
              \<lparr> p_chainId = ''0x'' @ toString16 (id_cfg target),
                p_chainName = name_cfg target,
                p_rpcUrls = rpcUrls target,
                p_nativeCurrency =
                  (case nativeCurrency target of
                     None \<Rightarrow> \<lparr> nc_name = ''ETH'', nc_symbol = ''ETH'', nc_decimals = 18 \<rparr>
                   | Some c \<Rightarrow> c),
                p_blockExplorerUrls =
                  (case blockExplorers target of None \<Rightarrow> [] | Some bs \<Rightarrow> map be_url bs) \<rparr>"
    by (simp add: addRequest_def)
qed

theorem switchChain_injected_fallback_witness:
  "connector (state injected_session) = Some Metamask
   \<and> eth_request_present ext_unknown_chain
   \<and> eth_request ext_unknown_chain (switchRequest polygon) =
        Inl (JsError (Some 4902) ''Unrecognized chain ID'')
   \<and> rpcUrls polygon \<noteq> []
   \<and> switchChain [polygon] ext_unknown_chain polygon injected_session =
        refreshNetwork [polygon] ext_unknown_chain
          (injected_session\<lparr>sent := [EthRequestAccounts, switchRequest polygon, addRequest polygon]\<rparr>)
   \<and> sent (snd (switchChain [polygon] ext_unknown_chain polygon injected_session)) =
        [EthRequestAccounts, WalletSwitchEthereumChain ''0x89'',
         WalletAddEthereumChain
           \<lparr> p_chainId = ''0x89'', p_chainName = ''Polygon'', p_rpcUrls = [''https://rpc.b''],
             p_nativeCurrency = \<lparr> nc_name = ''ETH'', nc_symbol = ''ETH'', nc_decimals = 18 \<rparr>,
             p_blockExplorerUrls = [] \<rparr>]
   \<and> eth_request ext_rejecting (switchRequest polygon) =
        Inl (JsError (Some 4001) ''User rejected the request'')
   \<and> switchChain [polygon] ext_rejecting polygon injected_session =
        (Inl (JsError (Some 4001) ''User rejected the request''),
         injected_session\<lparr>sent := [EthRequestAccounts, switchRequest polygon]\<rparr>)"
proof -
  have c: "connector (state injected_session) = Some Metamask"
    by (simp add: injected_session_eval)
  have s: "sent injected_session = [EthRequestAccounts]"
    by (simp add: injected_session_eval)
  have p1: "eth_request_present ext_unknown_chain"
    by (simp add: fixture_defs)
  have q1: "eth_request ext_unknown_chain (switchRequest polygon) =
        Inl (JsError (Some 4902) ''Unrecognized chain ID'')"
    by (simp add: ext_unknown_chain_def ext_ok_def polygon_requests)
  have a1: "eth_request ext_unknown_chain (addRequest polygon) = Inr ()"
    by (simp add: ext_unknown_chain_def ext_ok_def polygon_requests)
  have p2: "eth_request_present ext_rejecting"
    by (simp add: fixture_defs)
  have q2: "eth_request ext_rejecting (switchRequest polygon) =
        Inl (JsError (Some 4001) ''User rejected the request'')"
    by (simp add: fixture_defs)
  have r: "rpcUrls polygon \<noteq> []"
    by (simp add: polygon_def)
  have main: "switchChain [polygon] ext_unknown_chain polygon injected_session =
        refreshNetwork [polygon] ext_unknown_chain
          (injected_session\<lparr>sent := [EthRequestAccounts, switchRequest polygon, addRequest polygon]\<rparr>)"
    using switchChain_injected_fallback[OF c p1 q1, of "[polygon]"] r a1 s by simp
  have other: "switchChain [polygon] ext_rejecting polygon injected_session =
        (Inl (JsError (Some 4001) ''User rejected the request''),
         injected_session\<lparr>sent := [EthRequestAccounts, switchRequest polygon]\<rparr>)"
    using switchChain_injected_fallback[OF c p2 q2, of "[polygon]"] s by simp
  have log: "sent (snd (refreshNetwork [polygon] ext_unknown_chain
          (injected_session\<lparr>sent := [EthRequestAccounts, switchRequest polygon, addRequest polygon]\<rparr>))) =
        [EthRequestAccounts, WalletSwitchEthereumChain ''0x89'',
         WalletAddEthereumChain
           \<lparr> p_chainId = ''0x89'', p_chainName = ''Polygon'', p_rpcUrls = [''https://rpc.b''],
             p_nativeCurrency = \<lparr> nc_name = ''ETH'', nc_symbol = ''ETH'', nc_decimals = 18 \<rparr>,
             p_blockExplorerUrls = [] \<rparr>]"
    by (simp add: injected_session_eval refreshNetwork_def setState_def ext_unknown_chain_def
        ext_ok_def polygon_requests)
  show ?thesis
    using c p1 q1 r main other q2 log by simp
qed

section \<open>Switching on a guest connector\<close>

lemma switchChain_guest_wallet:
  assumes "connector (state w) = Some Guest"
      and "signer (state w) = Some (Wallet k p)"
      and "rpcUrls target = url # rest" and "url \<noteq> []"
      and "getNetwork ext (JsonRpcProvider url) = Inr cid"
  shows "switchChain kc ext target w =
           (Inr (), w\<lparr>state := (state w)\<lparr>provider := Some (JsonRpcProvider url),
                                          signer := Some (Wallet k (JsonRpcProvider url)),
                                          chainId := Some cid,
                                          chain_cfg := resolveChain kc (Some cid)\<rparr>\<rparr>)"
  using assms by (simp add: switchChain_def setState_def Let_def)

lemma isWallet_cases: "isWallet s \<Longrightarrow> \<exists>k p. s = Some (Wallet k p)"
  by (cases s rule: isWallet.cases) simp_all

text \<open>
  C5, as stated: for every target with a non-empty \<^verbatim>\<open>rpcUrls\<close> list, \<^verbatim>\<open>switchChain\<close> on
  a connected guest session builds the new signer and commits the chain id the new
  provider reports. It fails for the non-empty list whose first entry is the empty
  string: \<^verbatim>\<open>!rpcUrl\<close> is true, \<^verbatim>\<open>RPC_URL_REQUIRED\<close> is thrown and the session keeps
  its provider, signer and chain id.
\<close>

theorem blank_rpc_url_counterexample:
  "rpcUrls polygon_blank_rpc \<noteq> []
   \<and> status (state guest_session) = Connected
   \<and> connector (state guest_session) = Some Guest
   \<and> switchChain [polygon] ext_ok polygon_blank_rpc guest_session =
       (Inl (JsError None ''RPC_URL_REQUIRED''), guest_session)"
  by (simp add: guest_session_eval op_defs fixture_defs)

text \<open>
  C5, amended: for every guest session reached by a run and every target whose first
  RPC URL is a non-empty string, when the network read of the new provider returns
  \<open>cid\<close>: the current signer is a \<^verbatim>\<open>Wallet\<close> with some key \<open>k\<close>, and \<^verbatim>\<open>switchChain\<close>
  returns normally with the provider bound to that URL, the signer a \<^verbatim>\<open>Wallet\<close> of the
  same key \<open>k\<close> on the new provider, the chain id \<open>cid\<close> (whatever the target's id is)
  with its directory entry, and everything else, the account included, unchanged.
\<close>

theorem switchChain_guest_rebinds:
  assumes "w = run kc steps (initialWorld store)"
      and "connector (state w) = Some Guest"
      and "rpcUrls target = url # rest" and "url \<noteq> []"
      and "getNetwork ext (JsonRpcProvider url) = Inr cid"
  shows "\<exists>k p. signer (state w) = Some (Wallet k p)
           \<and> switchChain kc ext target w =
               (Inr (), w\<lparr>state := (state w)\<lparr>provider := Some (JsonRpcProvider url),
                                              signer := Some (Wallet k (JsonRpcProvider url)),
                                              chainId := Some cid,
                                              chain_cfg := resolveChain kc (Some cid)\<rparr>\<rparr>)
           \<and> signer (state (snd (switchChain kc ext target w))) = Some (Wallet k (JsonRpcProvider url))
           \<and> account (state (snd (switchChain kc ext target w))) = account (state w)
           \<and> chainId (state (snd (switchChain kc ext target w))) = Some cid"
proof -
  have "isWallet (signer (state w))"
    using inv_run[of kc steps store] assms(1,2) by (simp add: session_inv_def)
  then obtain k p where kp: "signer (state w) = Some (Wallet k p)"
    using isWallet_cases by blast
  show ?thesis
    using kp switchChain_guest_wallet[OF assms(2) kp assms(3) assms(4) assms(5), of kc]
    by simp
qed

theorem switchChain_guest_rebinds_witness:
  "connector (state guest_session) = Some Guest
   \<and> rpcUrls polygon = [''https://rpc.b'']
   \<and> getNetwork ext_ok (JsonRpcProvider ''https://rpc.b'') = Inr 137
   \<and> signer (state guest_session) = Some (Wallet ''0xK'' (JsonRpcProvider ''https://rpc.a''))
   \<and> signer (state (snd (switchChain [polygon] ext_ok polygon guest_session))) =
        Some (Wallet ''0xK'' (JsonRpcProvider ''https://rpc.b''))
   \<and> account (state (snd (switchChain [polygon] ext_ok polygon guest_session))) =
        account (state guest_session)
   \<and> chainId (state (snd (switchChain [polygon] ext_ok polygon guest_session))) = Some 137"
proof -
  have c: "connector (state guest_session) = Some Guest"
    by (simp add: guest_session_eval)
  have u: "rpcUrls polygon = [''https://rpc.b'']"
    by (simp add: polygon_def)
  have n: "''https://rpc.b'' \<noteq> []"
    by simp
  have g: "getNetwork ext_ok (JsonRpcProvider ''https://rpc.b'') = Inr 137"
    by (simp add: ext_ok_def)
  have s: "signer (state guest_session) = Some (Wallet ''0xK'' (JsonRpcProvider ''https://rpc.a''))"
    by (simp add: guest_session_eval)
  show ?thesis
    using c u g s switchChain_guest_rebinds[OF guest_session_run c u n g] by auto
qed

text \<open>
  C6. On a guest session, \<^verbatim>\<open>switchChain\<close> with a target whose \<^verbatim>\<open>rpcUrls\<close> list is empty
  throws \<^verbatim>\<open>RPC_URL_REQUIRED\<close> and leaves the session, and everything else, as it was.
\<close>

theorem switchChain_guest_rpc_required:
  assumes "connector (state w) = Some Guest" and "rpcUrls target = []"
  shows "switchChain kc ext target w = (Inl (JsError None ''RPC_URL_REQUIRED''), w)"
  using assms by (simp add: switchChain_def)

theorem switchChain_guest_rpc_required_witness:
  "connector (state guest_session) = Some Guest \<and> rpcUrls polygon_no_rpc = []
   \<and> switchChain [polygon] ext_ok polygon_no_rpc guest_session =
        (Inl (JsError None ''RPC_URL_REQUIRED''), guest_session)"
proof -
  have c: "connector (state guest_session) = Some Guest"
    by (simp add: guest_session_eval)
  have u: "rpcUrls polygon_no_rpc = []"
    by (simp add: polygon_no_rpc_def polygon_def)
  show ?thesis
    using c u switchChain_guest_rpc_required[OF c u, of "[polygon]" ext_ok] by simp
qed

section \<open>Disconnecting\<close>

text \<open>
  C7, as stated: \<^verbatim>\<open>disconnect\<close> resets the session and unregisters the handlers of the
  previous injected session. The handlers stay: after a \<^verbatim>\<open>connectMetaMask\<close> and a
  \<^verbatim>\<open>disconnect\<close> both are still registered, and an accounts-changed notification
  writes its address into the disconnected session.
\<close>

theorem disconnect_keeps_listeners_counterexample:
  "listeners (disconnect injected_session) =
     [(''accountsChanged'', OnAccounts), (''chainChanged'', OnChain BrowserProvider)]
   \<and> account (state (notify [polygon] ext_ok (AccountsChanged [''0xB2''])
                       (disconnect injected_session))) = Some ''0xB2''"
  by (simp add: injected_session_eval notify_def op_defs fixture_defs)

text \<open>
  C7, amended: \<^verbatim>\<open>disconnect\<close> resets the session to the initial disconnected state,
  whatever the session was (connector, provider, signer, account, chain id and chain
  all absent); the registered handlers are left as they are.
\<close>

theorem disconnect_resets_session:
  "state (disconnect w) = initialState
   \<and> status (state (disconnect w)) = Disconnected
   \<and> connector (state (disconnect w)) = None
   \<and> provider (state (disconnect w)) = None
   \<and> signer (state (disconnect w)) = None
   \<and> account (state (disconnect w)) = None
   \<and> chainId (state (disconnect w)) = None
   \<and> chain_cfg (state (disconnect w)) = None
   \<and> listeners (disconnect w) = listeners w"
  by (simp add: disconnect_def setState_def initialState_def)

text \<open>
  C8. \<^verbatim>\<open>disconnect\<close> is idempotent: a second call changes nothing, the session is the
  initial one after each call, and the stored last-connector entry is gone after each
  call. The function has no failing branch, so neither call raises.
\<close>

theorem disconnect_idempotent:
  "disconnect (disconnect w) = disconnect w
   \<and> state (disconnect w) = initialState
   \<and> state (disconnect (disconnect w)) = initialState
   \<and> localStorage (disconnect w) lastConnectorKey = None
   \<and> localStorage (disconnect (disconnect w)) lastConnectorKey = None"
  by (simp add: disconnect_def setState_def initialState_def)

section \<open>Refreshing the network\<close>

text \<open>
  C9. \<^verbatim>\<open>refreshNetwork\<close> returns without changing anything when no provider is present.
  With a provider it reads the chain id: when the read returns \<open>cid\<close> only the chain id
  and the resolved chain are replaced, when the read fails the error is thrown and nothing
  changes. In every case status, connector, provider, signer and account are untouched.
\<close>

theorem refreshNetwork_frame:
  "(provider (state w) = None \<longrightarrow> refreshNetwork kc ext w = (Inr (), w))
   \<and> (\<forall>p cid. provider (state w) = Some p \<and> getNetwork ext p = Inr cid \<longrightarrow>
         refreshNetwork kc ext w =
           (Inr (), w\<lparr>state := (state w)\<lparr>chainId := Some cid,
                                          chain_cfg := resolveChain kc (Some cid)\<rparr>\<rparr>))
   \<and> (\<forall>p e. provider (state w) = Some p \<and> getNetwork ext p = Inl e \<longrightarrow>
         refreshNetwork kc ext w = (Inl e, w))
   \<and> status (state (snd (refreshNetwork kc ext w))) = status (state w)
   \<and> connector (state (snd (refreshNetwork kc ext w))) = connector (state w)
   \<and> provider (state (snd (refreshNetwork kc ext w))) = provider (state w)
   \<and> signer (state (snd (refreshNetwork kc ext w))) = signer (state w)
   \<and> account (state (snd (refreshNetwork kc ext w))) = account (state w)"
  by (auto simp: refreshNetwork_def setState_def split: option.splits sum.splits)

theorem refreshNetwork_frame_witness:
  "provider (state (initialWorld Map.empty)) = None
   \<and> refreshNetwork [polygon] ext_ok (initialWorld Map.empty) = (Inr (), initialWorld Map.empty)
   \<and> provider (state guest_session) = Some (JsonRpcProvider ''https://rpc.a'')
   \<and> getNetwork (ext_ok\<lparr>getNetwork := (\<lambda>_. Inr 137)\<rparr>) (JsonRpcProvider ''https://rpc.a'') = Inr 137
   \<and> refreshNetwork [polygon] (ext_ok\<lparr>getNetwork := (\<lambda>_. Inr 137)\<rparr>) guest_session =
        (Inr (), guest_session\<lparr>state := (state guest_session)\<lparr>chainId := Some 137,
                                                              chain_cfg := Some polygon\<rparr>\<rparr>)
   \<and> getNetwork ext_offline (JsonRpcProvider ''https://rpc.a'') = Inl (JsError None ''network unreachable'')
   \<and> refreshNetwork [polygon] ext_offline guest_session =
        (Inl (JsError None ''network unreachable''), guest_session)"
proof -
  have p0: "provider (state (initialWorld Map.empty)) = None"
    by (simp add: initialWorld_def initialState_def)
  have p1: "provider (state guest_session) = Some (JsonRpcProvider ''https://rpc.a'')"
    by (simp add: guest_session_eval)
  have g1: "getNetwork (ext_ok\<lparr>getNetwork := (\<lambda>_. Inr 137)\<rparr>) (JsonRpcProvider ''https://rpc.a'') = Inr 137"
    by simp
  have g2: "getNetwork ext_offline (JsonRpcProvider ''https://rpc.a'') = Inl (JsError None ''network unreachable'')"
    by (simp add: ext_offline_def)
  have r: "resolveChain [polygon] (Some 137) = Some polygon"
    by (simp add: resolveChain_def polygon_def)
  show ?thesis
    using p0 p1 g1 g2 r
      refreshNetwork_frame[of "initialWorld Map.empty" "[polygon]" ext_ok]
      refreshNetwork_frame[of guest_session "[polygon]" "ext_ok\<lparr>getNetwork := (\<lambda>_. Inr 137)\<rparr>"]
      refreshNetwork_frame[of guest_session "[polygon]" ext_offline]
    by simp
qed

section \<open>Hooks outside a provider\<close>

text \<open>
  C10. With no \<^verbatim>\<open>WalletProvider\<close> above it (context value null), each of \<^verbatim>\<open>useSigner\<close>,
  \<^verbatim>\<open>useAddress\<close> and \<^verbatim>\<open>useNetwork\<close> throws an error with the message
  \<^verbatim>\<open>WalletProvider is missing\<close>; none returns a value.
\<close>

theorem hooks_without_provider:
  "useSigner None = Inl (JsError None ''WalletProvider is missing'')
   \<and> useAddress None = Inl (JsError None ''WalletProvider is missing'')
   \<and> useNetwork None = Inl (JsError None ''WalletProvider is missing'')"
  by (simp add: useSigner_def useAddress_def useNetwork_def)

end
